theory Spec2Isabelle
  imports Complex_Main
begin

section \<open>JavaScript values and the built-ins the calculators call\<close>

text \<open>
  The calculators read loosely typed form fields. A field value is one of the
  JavaScript primitives below. Numbers are idealised: an IEEE double is modelled
  by the real it denotes, the arithmetic of the rate calculators is exact, NaN is
  the missing result of a parse (\<open>None\<close>), and the infinities are not
  represented. Where the code feeds a product to \<open>Math.round\<close> or prints a number,
  the rounding of doubles decides the result and is modelled (\<open>roundToDouble\<close>
  below). A string is a list of code units below 256.
\<close>

datatype jsval = JUndefined | JNull | JBool bool | JNum real | JStr string

text \<open>An object of form fields: a property that is not set reads as \<open>undefined\<close>.\<close>

type_synonym formData = "string \<Rightarrow> jsval"

definition emptyObject :: formData where
  "emptyObject = (\<lambda>k. JUndefined)"

primrec truthy :: "jsval \<Rightarrow> bool" where
  "truthy JUndefined = False"
| "truthy JNull = False"
| "truthy (JBool b) = b"
| "truthy (JNum r) = (r \<noteq> 0)"
| "truthy (JStr s) = (s \<noteq> [])"

text \<open>The operator \<open>a || b\<close> on values.\<close>

definition js_or :: "jsval \<Rightarrow> jsval \<Rightarrow> jsval" where
  "js_or a b = (if truthy a then a else b)"

text \<open>\<open>parseInt(x) || 0\<close> and \<open>parseFloat(x) || 0\<close>: NaN and 0 both give 0.\<close>

definition or0 :: "'a::zero option \<Rightarrow> 'a" where
  "or0 p = (case p of None \<Rightarrow> 0 | Some n \<Rightarrow> n)"

text \<open>
  The white space \<open>parseInt\<close> and \<open>parseFloat\<close> skip: tab, line feed, vertical tab,
  form feed, carriage return, space and the no-break space. The other white space
  characters of JavaScript have code units from 256 up, which a string here cannot
  hold.
\<close>

definition isWhiteSpace :: "char \<Rightarrow> bool" where
  "isWhiteSpace c =
     (c \<in> set [CHR 0x09, CHR 0x0A, CHR 0x0B, CHR 0x0C, CHR 0x0D, CHR 0x20, CHR 0xA0])"

text \<open>The value of a digit in radix up to 16; 36 for a character that is no digit.\<close>

definition digitValue :: "char \<Rightarrow> nat" where
  "digitValue c =
     (let n = (of_char c :: nat)
      in if 48 \<le> n \<and> n \<le> 57 then n - 48
         else if 97 \<le> n \<and> n \<le> 102 then n - 87
         else if 65 \<le> n \<and> n \<le> 70 then n - 55
         else 36)"

definition digitsValue :: "nat \<Rightarrow> string \<Rightarrow> nat" where
  "digitsValue radix ds = foldl (\<lambda>acc c. acc * radix + digitValue c) 0 ds"

definition signOf :: "string \<Rightarrow> int" where
  "signOf t = (if t \<noteq> [] \<and> hd t = CHR ''-'' then - 1 else 1)"

definition dropSign :: "string \<Rightarrow> string" where
  "dropSign t = (if t \<noteq> [] \<and> (hd t = CHR ''+'' \<or> hd t = CHR ''-'') then tl t else t)"

text \<open>
  \<open>parseInt(string)\<close> with no radix argument: leading white space is skipped, a sign
  is read, a \<open>0x\<close> prefix selects radix 16, and the longest prefix of digits is the
  value; no digit at all gives NaN.
\<close>

definition parseIntString :: "string \<Rightarrow> int option" where
  "parseIntString s =
     (let t = dropWhile isWhiteSpace s;
          u = dropSign t;
          hex = (take 2 u = ''0x'' \<or> take 2 u = ''0X'');
          radix = (if hex then 16 else 10);
          v = (if hex then drop 2 u else u);
          ds = takeWhile (\<lambda>c. digitValue c < radix) v
      in if ds = [] then None else Some (signOf t * int (digitsValue radix ds)))"

subsection \<open>Doubles\<close>

text \<open>\<open>scaleBy b m e\<close> is \<open>m\<close> times \<open>b\<close> to the power \<open>e\<close>, for an integer \<open>e\<close>.\<close>

definition scaleBy :: "nat \<Rightarrow> real \<Rightarrow> int \<Rightarrow> real" where
  "scaleBy b m e = (if 0 \<le> e then m * real b ^ nat e else m / real b ^ nat (- e))"

text \<open>The number of digits of \<open>a\<close> in base \<open>b\<close>; 0 for \<open>a \<le> 0\<close>.\<close>

function digitCount :: "int \<Rightarrow> int \<Rightarrow> int" where
  "digitCount b a = (if 0 < a \<and> 1 < b then digitCount b (a div b) + 1 else 0)"
  by pat_completeness auto
termination
  by (relation "measure (\<lambda>(b, a). nat a)") (auto simp add: int_div_less_self)

declare digitCount.simps [simp del]

text \<open>
  For \<open>x > 0\<close>, the exponent \<open>e\<close> with \<open>b ^ e \<le> x < b ^ (e + 1)\<close>:
  the number of digits of the integer part less one, or, below 1, counted on the
  reciprocal.
\<close>

definition magnitudeExponent :: "nat \<Rightarrow> real \<Rightarrow> int" where
  "magnitudeExponent b x =
     (if 1 \<le> x then digitCount (int b) \<lfloor>x\<rfloor> - 1
      else - digitCount (int b) (\<lceil>1 / x\<rceil> - 1))"

definition roundHalfEven :: "real \<Rightarrow> int" where
  "roundHalfEven z =
     (let f = \<lfloor>z\<rfloor>; d = z - real_of_int f
      in if d < 1 / 2 then f
         else if 1 / 2 < d then f + 1
         else if even f then f else f + 1)"

text \<open>
  The double nearest to a real, ties to the even significand: 53 significant bits,
  and steps of \<open>2 ^ -1074\<close> in the subnormal range. A result of magnitude \<open>2 ^ 1024\<close>
  or more is infinite in JavaScript and is not represented.
\<close>

definition roundToDouble :: "real \<Rightarrow> real" where
  "roundToDouble x =
     (if x = 0 then 0
      else (let q = max (magnitudeExponent 2 \<bar>x\<bar> - 52) (- 1074)
            in scaleBy 2 (real_of_int (roundHalfEven (scaleBy 2 x (- q)))) q))"



text \<open>
  The first digit of the string of a double \<open>x > 0\<close>. The string has the fewest
  digits that read back as \<open>x\<close>: a single digit times a power of ten if one rounds
  to \<open>x\<close>, and otherwise digits that start as those of \<open>x\<close> itself.
\<close>

definition leadingDigit :: "real \<Rightarrow> int" where
  "leadingDigit x =
     (let k = magnitudeExponent 10 x
      in case filter (\<lambda>d. roundToDouble (scaleBy 10 (real_of_int d) k) = x) [1..9]
              @ filter (\<lambda>d. roundToDouble (scaleBy 10 (real_of_int d) (k + 1)) = x) [1] of
           d # _ \<Rightarrow> d
         | [] \<Rightarrow> \<lfloor>scaleBy 10 x (- k)\<rfloor>)"

text \<open>
  \<open>parseInt\<close> of a number parses the string of the number. From the double of
  \<open>1e-6\<close> up to, and not including, \<open>1e21\<close> the string is a plain decimal and the
  result is the number truncated toward zero. Outside that range the string is in
  exponent notation, \<open>d.ddde+21\<close>, and the parse stops after the first digit.
  \<open>undefined\<close>, \<open>null\<close> and booleans print as words and parse to NaN.
\<close>

fun parseInt :: "jsval \<Rightarrow> int option" where
  "parseInt (JStr s) = parseIntString s"
| "parseInt (JNum r) =
     (if r = 0 \<or> (roundToDouble (1 / 10 ^ 6) \<le> \<bar>r\<bar> \<and> \<bar>r\<bar> < 10 ^ 21)
      then Some (if 0 \<le> r then \<lfloor>r\<rfloor> else \<lceil>r\<rceil>)
      else Some ((if 0 < r then 1 else - 1) * leadingDigit \<bar>r\<bar>))"
| "parseInt _ = None"

text \<open>
  \<open>parseFloat(string)\<close>: white space, a sign, then the longest prefix that is a
  decimal literal: digits, an optional fraction, an optional exponent. A literal
  needs a digit before or after the point. The literal \<open>Infinity\<close> parses to an
  infinity in JavaScript; a real cannot hold it, and it is read here as no number.
\<close>

definition isDecimalDigit :: "char \<Rightarrow> bool" where
  "isDecimalDigit c = (digitValue c < 10)"

definition exponentPart :: "string \<Rightarrow> int" where
  "exponentPart r =
     (if r \<noteq> [] \<and> (hd r = CHR ''e'' \<or> hd r = CHR ''E'')
      then (let ds = takeWhile isDecimalDigit (dropSign (tl r))
            in if ds = [] then 0 else signOf (tl r) * int (digitsValue 10 ds))
      else 0)"

definition scale10 :: "real \<Rightarrow> int \<Rightarrow> real" where
  "scale10 m e = (if 0 \<le> e then m * 10 ^ nat e else m / 10 ^ nat (- e))"

definition parseFloatString :: "string \<Rightarrow> real option" where
  "parseFloatString s =
     (let t = dropWhile isWhiteSpace s;
          u = dropSign t;
          ip = takeWhile isDecimalDigit u;
          r1 = drop (length ip) u;
          point = (r1 \<noteq> [] \<and> hd r1 = CHR ''.'');
          fp = (if point then takeWhile isDecimalDigit (tl r1) else []);
          r2 = (if point then drop (length fp) (tl r1) else r1);
          m = real (digitsValue 10 ip) + real (digitsValue 10 fp) / 10 ^ length fp
      in if ip = [] \<and> fp = [] then None
         else Some (real_of_int (signOf t) * scale10 m (exponentPart r2)))"

fun parseFloat :: "jsval \<Rightarrow> real option" where
  "parseFloat (JStr s) = parseFloatString s"
| "parseFloat (JNum r) = Some r"
| "parseFloat _ = None"


text \<open>
  Reading a property of an object literal. A key the literal defines gives its own
  value. Any other key is looked up in \<open>Object.prototype\<close>: the names below are
  defined there (each value is a function or an object, so it is truthy, and it has
  no property \<open>annual\<close> or \<open>quarterly\<close>); every remaining key reads as
  \<open>undefined\<close>.
\<close>

datatype 'a property = Own 'a | Inherited | Undefined

definition objectPrototypeKeys :: "string list" where
  "objectPrototypeKeys =
     [''constructor'', ''hasOwnProperty'', ''isPrototypeOf'', ''propertyIsEnumerable'',
      ''toLocaleString'', ''toString'', ''valueOf'', ''__proto__'',
      ''__defineGetter__'', ''__defineSetter__'', ''__lookupGetter__'', ''__lookupSetter__'']"

text \<open>
  The key of \<open>obj[v]\<close> is the string of \<open>v\<close>. A boolean or a number prints as a word
  or a numeral, which is neither a key of the rate table nor a name of
  \<open>Object.prototype\<close>, so only a string can find a property.
\<close>

fun getProperty :: "(string \<times> 'a) list \<Rightarrow> jsval \<Rightarrow> 'a property" where
  "getProperty obj (JStr k) =
     (case map_of obj k of
        Some v \<Rightarrow> Own v
      | None \<Rightarrow> if k \<in> set objectPrototypeKeys then Inherited else Undefined)"
| "getProperty obj _ = Undefined"

datatype error = TypeError

section \<open>The rate card (StateApplications/ny/quote-calculator.js)\<close>

record rates =
  male :: real
  female :: real
  maleWithHospital :: real
  femaleWithHospital :: real

record tierRates =
  annual :: rates
  quarterly :: rates

definition DBL_RATES :: "(string \<times> tierRates) list" where
  "DBL_RATES =
    [(''statutory'',
       \<lparr>annual = \<lparr>male = 1.50, female = 3.25, maleWithHospital = 1.65, femaleWithHospital = 3.55\<rparr>,
        quarterly = \<lparr>male = 1.85, female = 3.90, maleWithHospital = 1.95, femaleWithHospital = 4.25\<rparr>\<rparr>),
     (''enriched1.5x'',
       \<lparr>annual = \<lparr>male = 2.10, female = 4.35, maleWithHospital = 2.25, femaleWithHospital = 4.75\<rparr>,
        quarterly = \<lparr>male = 2.45, female = 5.25, maleWithHospital = 2.60, femaleWithHospital = 5.70\<rparr>\<rparr>),
     (''enriched2x'',
       \<lparr>annual = \<lparr>male = 2.55, female = 5.60, maleWithHospital = 2.75, femaleWithHospital = 6.00\<rparr>,
        quarterly = \<lparr>male = 3.15, female = 6.70, maleWithHospital = 3.30, femaleWithHospital = 7.20\<rparr>\<rparr>),
     (''enriched3x'',
       \<lparr>annual = \<lparr>male = 3.90, female = 8.55, maleWithHospital = 4.15, femaleWithHospital = 9.00\<rparr>,
        quarterly = \<lparr>male = 4.75, female = 10.20, maleWithHospital = 4.95, femaleWithHospital = 10.75\<rparr>\<rparr>),
     (''enriched4x'',
       \<lparr>annual = \<lparr>male = 7.60, female = 16.65, maleWithHospital = 8.40, femaleWithHospital = 17.15\<rparr>,
        quarterly = \<lparr>male = 9.25, female = 19.80, maleWithHospital = 9.45, femaleWithHospital = 20.40\<rparr>\<rparr>),
     (''enriched5x'',
       \<lparr>annual = \<lparr>male = 9.75, female = 21.40, maleWithHospital = 10.80, femaleWithHospital = 21.90\<rparr>,
        quarterly = \<lparr>male = 11.90, female = 25.50, maleWithHospital = 12.10, femaleWithHospital = 26.05\<rparr>\<rparr>)]"

definition PFL_RATE_percentOfPayroll :: real where
  "PFL_RATE_percentOfPayroll = 0.00432"

definition PFL_RATE_annualCapPerEmployee :: real where
  "PFL_RATE_annualCapPerEmployee = 411.91"

definition PFL_RATE_nysaww :: real where
  "PFL_RATE_nysaww = 95348.76"

definition MINIMUMS_annualDBL :: real where
  "MINIMUMS_annualDBL = 125.00"

definition MINIMUMS_quarterlyDBL :: real where
  "MINIMUMS_quarterlyDBL = 35.00"

definition OPTIONAL_BENEFITS_addd50k :: real where
  "OPTIONAL_BENEFITS_addd50k = 1.00"

definition OPTIONAL_BENEFITS_addd100k :: real where
  "OPTIONAL_BENEFITS_addd100k = 2.00"

definition OPTIONAL_BENEFITS_termLife15k :: real where
  "OPTIONAL_BENEFITS_termLife15k = 36 / 12"

definition OPTIONAL_BENEFITS_eap :: real where
  "OPTIONAL_BENEFITS_eap = 36 / 12"

definition OPTIONAL_BENEFITS_nurseHelpline :: real where
  "OPTIONAL_BENEFITS_nurseHelpline = 54 / 12"

section \<open>The line calculators\<close>

text \<open>
  \<open>calculateDBLPremium\<close>. The guard \<open>!DBL_RATES[tier]\<close> returns 0 for a key that reads
  as \<open>undefined\<close> (after \<open>console.error\<close>, which is not part of the result). A key
  inherited from \<open>Object.prototype\<close> passes the guard; then \<open>DBL_RATES[tier][billing]\<close>
  is \<open>undefined\<close> and reading a rate of it throws a TypeError.
\<close>

definition calculateDBLPremium :: "int \<Rightarrow> int \<Rightarrow> jsval \<Rightarrow> jsval \<Rightarrow> bool \<Rightarrow> error + real" where
  "calculateDBLPremium maleCount femaleCount benefitTier billingType includeHospital =
     (let tier = js_or benefitTier (JStr ''statutory'');
          billing = (if billingType = JStr ''quarterly'' then quarterly else annual)
      in case getProperty DBL_RATES tier of
           Undefined \<Rightarrow> Inr 0
         | Inherited \<Rightarrow> Inl TypeError
         | Own t \<Rightarrow>
             (let rates = billing t
              in if includeHospital
                 then Inr (real_of_int maleCount * maleWithHospital rates
                           + real_of_int femaleCount * femaleWithHospital rates)
                 else Inr (real_of_int maleCount * male rates
                           + real_of_int femaleCount * female rates)))"

record pflBreakdown =
  employeesOverCap :: int
  pflFromOverCap :: real
  payrollBelowCap :: real
  pflFromBelowCap :: real

record pflPremium =
  annualTotal :: real
  monthlyTotal :: real
  annualPerEmployee :: real
  monthlyPerEmployee :: real
  pfl_breakdown :: pflBreakdown

text \<open>
  \<open>calculatePFLPremium\<close>. On a number, \<open>x || 0\<close> is \<open>x\<close> (0 is replaced by 0), so the
  three defaults of the source are the arguments themselves.
\<close>

definition calculatePFLPremium :: "int \<Rightarrow> real \<Rightarrow> int \<Rightarrow> pflPremium" where
  "calculatePFLPremium employeesOverNYSAWW payrollBelowNYSAWW employeeCount =
     (let pflFromOverCap' = real_of_int employeesOverNYSAWW * PFL_RATE_annualCapPerEmployee;
          payrollBelow = payrollBelowNYSAWW;
          pflFromBelowCap' = payrollBelow * PFL_RATE_percentOfPayroll;
          annualPFL = pflFromOverCap' + pflFromBelowCap';
          totalEmployeeCount = employeeCount
      in \<lparr>annualTotal = annualPFL,
          monthlyTotal = annualPFL / 12,
          annualPerEmployee =
            (if totalEmployeeCount > 0 then annualPFL / real_of_int totalEmployeeCount else 0),
          monthlyPerEmployee =
            (if totalEmployeeCount > 0 then annualPFL / 12 / real_of_int totalEmployeeCount else 0),
          pfl_breakdown =
            \<lparr>employeesOverCap = employeesOverNYSAWW,
             pflFromOverCap = pflFromOverCap',
             payrollBelowCap = payrollBelow,
             pflFromBelowCap = pflFromBelowCap'\<rparr>\<rparr>)"

record selections =
  sel_termLife15k :: bool
  sel_eap :: bool
  sel_nurseHelpline :: bool
  sel_addd50k :: bool
  sel_addd100k :: bool

definition calculateOptionalBenefits :: "int \<Rightarrow> selections \<Rightarrow> real" where
  "calculateOptionalBenefits employeeCount sel =
     (let m0 = (0::real);
          m1 = (if sel_termLife15k sel
                then m0 + real_of_int employeeCount * OPTIONAL_BENEFITS_termLife15k else m0);
          m2 = (if sel_eap sel
                then m1 + real_of_int employeeCount * OPTIONAL_BENEFITS_eap else m1);
          m3 = (if sel_nurseHelpline sel
                then m2 + real_of_int employeeCount * OPTIONAL_BENEFITS_nurseHelpline else m2);
          m4 = (if sel_addd50k sel
                then m3 + real_of_int employeeCount * OPTIONAL_BENEFITS_addd50k else m3);
          m5 = (if sel_addd100k sel
                then m4 + real_of_int employeeCount * OPTIONAL_BENEFITS_addd100k else m4)
      in m5)"

definition applyMinimums :: "real \<Rightarrow> jsval \<Rightarrow> real" where
  "applyMinimums monthlyPremium billingType =
     (if billingType = JStr ''annual''
      then (if monthlyPremium * 12 < MINIMUMS_annualDBL
            then MINIMUMS_annualDBL / 12 else monthlyPremium)
      else if billingType = JStr ''quarterly''
      then (if monthlyPremium * 3 < MINIMUMS_quarterlyDBL
            then MINIMUMS_quarterlyDBL / 3 else monthlyPremium)
      else monthlyPremium)"

section \<open>The quote assembler\<close>

record breakdown_t =
  dblPremium :: real
  pflPremium :: real
  optionalCost :: real
  totalCost :: real

record perEmployeeBreakdown_t =
  dblPerEmployee :: real
  pflPerEmployee :: real
  optionalPerEmployee :: real
  totalPerEmployee :: real

record employeeInfo_t =
  info_male :: int
  info_female :: int
  info_total :: int

record genderRatio =
  ratio_male :: real
  ratio_female :: real

text \<open>
  The object \<open>calculateQuote\<close> returns. The zero quote has no \<open>periodMultiplier\<close>,
  \<open>perEmployeeBreakdown\<close> or \<open>employeeInfo\<close>; \<open>isEstimated\<close> and
  \<open>estimatedGenderRatio\<close> exist only once \<open>calculateQuoteWithEstimate\<close> has set
  them. A property that is absent is \<open>None\<close>.
\<close>

record QuoteResult =
  dblMonthly :: real
  pflMonthly :: real
  optionalMonthly :: real
  totalMonthly :: real
  displayAmount :: real
  billingPeriod :: string
  periodMultiplier :: "real option"
  breakdown :: breakdown_t
  perEmployeeBreakdown :: "perEmployeeBreakdown_t option"
  employeeInfo :: "employeeInfo_t option"
  isEstimated :: "bool option"
  estimatedGenderRatio :: "genderRatio option"

definition zeroQuote :: QuoteResult where
  "zeroQuote =
     \<lparr>dblMonthly = 0, pflMonthly = 0, optionalMonthly = 0, totalMonthly = 0,
      displayAmount = 0, billingPeriod = ''year'', periodMultiplier = None,
      breakdown = \<lparr>dblPremium = 0, pflPremium = 0, optionalCost = 0, totalCost = 0\<rparr>,
      perEmployeeBreakdown = None, employeeInfo = None,
      isEstimated = None, estimatedGenderRatio = None\<rparr>"

text \<open>The flags \<open>x === 'on' || x === true\<close> of a checkbox field.\<close>

definition checked :: "jsval \<Rightarrow> bool" where
  "checked x = (x = JStr ''on'' \<or> x = JBool True)"

definition optionalSelections :: "formData \<Rightarrow> selections" where
  "optionalSelections formData =
     \<lparr>sel_termLife15k = checked (formData ''termLife15k''),
      sel_eap = checked (formData ''eap''),
      sel_nurseHelpline = checked (formData ''nurseHelpline''),
      sel_addd50k = (formData ''adddBenefit'' = JStr ''50000''),
      sel_addd100k = (formData ''adddBenefit'' = JStr ''100000'')\<rparr>"

text \<open>
  \<open>calculateQuote\<close>. The field \<open>annualPayroll\<close> is parsed and never used, so it is
  left out. A TypeError of \<open>calculateDBLPremium\<close> leaves the function.
\<close>

definition calculateQuote :: "formData \<Rightarrow> error + QuoteResult" where
  "calculateQuote formData =
     (let maleCount = or0 (parseInt (formData ''maleEmployees''));
          femaleCount = or0 (parseInt (formData ''femaleEmployees''));
          totalEmployees = maleCount + femaleCount
      in if totalEmployees = 0 then Inr zeroQuote
         else
          (let benefitTier = js_or (formData ''dblBenefits'') (JStr ''statutory'');
               billingType = js_or (formData ''billingOption'') (JStr ''annual'');
               includeHospital = checked (formData ''inHospitalRider'')
           in case calculateDBLPremium maleCount femaleCount benefitTier billingType includeHospital of
                Inl e \<Rightarrow> Inl e
              | Inr dblRaw \<Rightarrow>
                 (let dblMonthly' = applyMinimums dblRaw billingType;
                      employeesOverNYSAWW = or0 (parseInt (formData ''employeesOverNYSAWW''));
                      payrollBelowNYSAWW = or0 (parseFloat (formData ''payrollBelowNYSAWW''));
                      pfl = calculatePFLPremium employeesOverNYSAWW payrollBelowNYSAWW totalEmployees;
                      pflMonthly' = monthlyTotal pfl;
                      optionalMonthly' =
                        calculateOptionalBenefits totalEmployees (optionalSelections formData);
                      totalMonthly' = dblMonthly' + pflMonthly' + optionalMonthly';
                      billingPeriod' = (if billingType = JStr ''quarterly'' then ''quarter'' else ''year'');
                      periodMultiplier' = (if billingPeriod' = ''year'' then 12 else 3);
                      displayAmount' = totalMonthly' * periodMultiplier'
                  in Inr
                      \<lparr>dblMonthly = dblMonthly',
                       pflMonthly = pflMonthly',
                       optionalMonthly = optionalMonthly',
                       totalMonthly = totalMonthly',
                       displayAmount = displayAmount',
                       billingPeriod = billingPeriod',
                       periodMultiplier = Some periodMultiplier',
                       breakdown =
                         \<lparr>dblPremium = dblMonthly' * periodMultiplier',
                          pflPremium = pflMonthly' * periodMultiplier',
                          optionalCost = optionalMonthly' * periodMultiplier',
                          totalCost = displayAmount'\<rparr>,
                       perEmployeeBreakdown = Some
                         \<lparr>dblPerEmployee = dblMonthly' / real_of_int totalEmployees,
                          pflPerEmployee = pflMonthly' / real_of_int totalEmployees,
                          optionalPerEmployee = optionalMonthly' / real_of_int totalEmployees,
                          totalPerEmployee = totalMonthly' / real_of_int totalEmployees\<rparr>,
                       employeeInfo = Some
                         \<lparr>info_male = maleCount, info_female = femaleCount,
                          info_total = totalEmployees\<rparr>,
                       isEstimated = None,
                       estimatedGenderRatio = None\<rparr>)))"


section \<open>The flat-rate calculator (quote-calculator.js)\<close>

definition PRICING_baseRatePerEmployee :: real where
  "PRICING_baseRatePerEmployee = 50"

definition PRICING_statutoryMultiplier :: real where
  "PRICING_statutoryMultiplier = 1.0"

definition PRICING_enriched1_5x :: real where
  "PRICING_enriched1_5x = 1.5"

definition PRICING_enriched2x :: real where
  "PRICING_enriched2x = 2.0"

definition PRICING_enriched3x :: real where
  "PRICING_enriched3x = 3.0"

definition PRICING_enriched4x :: real where
  "PRICING_enriched4x = 4.0"

definition PRICING_enriched5x :: real where
  "PRICING_enriched5x = 5.0"

definition PRICING_inHospitalRider :: real where
  "PRICING_inHospitalRider = 2.50"

definition PRICING_addd50k :: real where
  "PRICING_addd50k = 1.25"

definition PRICING_addd100k :: real where
  "PRICING_addd100k = 2.50"

definition PRICING_termLife15k :: real where
  "PRICING_termLife15k = 1.50"

definition PRICING_eap :: real where
  "PRICING_eap = 0.75"

definition PRICING_nurseHelpline :: real where
  "PRICING_nurseHelpline = 0.50"

definition PRICING_quarterlyFee :: real where
  "PRICING_quarterlyFee = 15.00"

definition PRICING_annualMinimum :: real where
  "PRICING_annualMinimum = 125.00"

definition PRICING_quarterlyMinimum :: real where
  "PRICING_quarterlyMinimum = 35.00"

definition PRICING_payrollRate :: real where
  "PRICING_payrollRate = 0.005"

text \<open>\<open>getDBLMultiplier\<close>: a \<open>switch\<close> on the value, compared with \<open>===\<close>.\<close>

definition getDBLMultiplier :: "jsval \<Rightarrow> real" where
  "getDBLMultiplier benefitValue =
     (if benefitValue = JStr ''statutory'' then PRICING_statutoryMultiplier
      else if benefitValue = JStr ''enriched1.5x'' then PRICING_enriched1_5x
      else if benefitValue = JStr ''enriched2x'' then PRICING_enriched2x
      else if benefitValue = JStr ''enriched3x'' then PRICING_enriched3x
      else if benefitValue = JStr ''enriched4x'' then PRICING_enriched4x
      else if benefitValue = JStr ''enriched5x'' then PRICING_enriched5x
      else PRICING_statutoryMultiplier)"

definition calculateBasePremium :: "int \<Rightarrow> real \<Rightarrow> jsval \<Rightarrow> real \<Rightarrow> real" where
  "calculateBasePremium totalEmployees multiplier billingType totalPayroll =
     (if billingType = JStr ''quarterlyPayroll'' \<and> totalPayroll > 0
      then totalPayroll * PRICING_payrollRate
      else real_of_int totalEmployees * PRICING_baseRatePerEmployee * multiplier)"

definition calculateRidersCost :: "int \<Rightarrow> bool \<Rightarrow> jsval \<Rightarrow> real" where
  "calculateRidersCost totalEmployees inHospitalSelected adddBenefit =
     (let r0 = (0::real);
          r1 = (if inHospitalSelected
                then r0 + real_of_int totalEmployees * PRICING_inHospitalRider else r0);
          r2 = (if adddBenefit = JStr ''50000''
                then r1 + real_of_int totalEmployees * PRICING_addd50k
                else if adddBenefit = JStr ''100000''
                then r1 + real_of_int totalEmployees * PRICING_addd100k
                else r1)
      in r2)"

definition calculateOptionalBenefitsCost :: "int \<Rightarrow> bool \<Rightarrow> bool \<Rightarrow> bool \<Rightarrow> real" where
  "calculateOptionalBenefitsCost totalEmployees termLifeSelected eapSelected nurseHelplineSelected =
     (let o0 = (0::real);
          o1 = (if termLifeSelected
                then o0 + real_of_int totalEmployees * PRICING_termLife15k else o0);
          o2 = (if eapSelected
                then o1 + real_of_int totalEmployees * PRICING_eap else o1);
          o3 = (if nurseHelplineSelected
                then o2 + real_of_int totalEmployees * PRICING_nurseHelpline else o2)
      in o3)"

definition legacy_applyMinimums :: "real \<Rightarrow> jsval \<Rightarrow> real" where
  "legacy_applyMinimums monthlyPremium billingType =
     (if billingType = JStr ''annual''
      then (if monthlyPremium * 12 < PRICING_annualMinimum
            then PRICING_annualMinimum / 12 else monthlyPremium)
      else if billingType = JStr ''quarterly'' \<or> billingType = JStr ''quarterlyPayroll''
      then (if monthlyPremium * 3 < PRICING_quarterlyMinimum
            then PRICING_quarterlyMinimum / 3 else monthlyPremium)
      else monthlyPremium)"

definition addBillingFees :: "real \<Rightarrow> jsval \<Rightarrow> real" where
  "addBillingFees monthlyPremium billingType =
     (if billingType = JStr ''quarterly'' \<or> billingType = JStr ''quarterlyPayroll''
      then monthlyPremium + PRICING_quarterlyFee / 3
      else monthlyPremium)"

record legacy_breakdown_t =
  legacy_basePremium :: real
  legacy_ridersCost :: real
  legacy_optionalCost :: real
  legacy_totalCost :: real

record legacy_QuoteResult =
  legacy_baseMonthlyPremium :: real
  legacy_ridersMonthly :: real
  legacy_optionalMonthly :: real
  legacy_totalMonthly :: real
  legacy_displayAmount :: real
  legacy_billingPeriod :: string
  legacy_breakdown :: legacy_breakdown_t

definition legacy_zeroQuote :: legacy_QuoteResult where
  "legacy_zeroQuote =
     \<lparr>legacy_baseMonthlyPremium = 0, legacy_ridersMonthly = 0, legacy_optionalMonthly = 0,
      legacy_totalMonthly = 0, legacy_displayAmount = 0, legacy_billingPeriod = ''year'',
      legacy_breakdown =
        \<lparr>legacy_basePremium = 0, legacy_ridersCost = 0, legacy_optionalCost = 0,
         legacy_totalCost = 0\<rparr>\<rparr>"

text \<open>
  \<open>calculateQuote\<close> of quote-calculator.js. It shares its name with the rate-card
  assembler above, hence the prefix. It reads the AD and D selection from the field
  \<open>addBenefit\<close>.
\<close>

definition legacy_calculateQuote :: "formData \<Rightarrow> legacy_QuoteResult" where
  "legacy_calculateQuote formData =
     (let totalEmployees = or0 (parseInt (formData ''totalEmployees''))
      in if totalEmployees = 0 then legacy_zeroQuote
         else
          (let multiplier = getDBLMultiplier (js_or (formData ''dblBenefits'') (JStr ''statutory''));
               billingType = js_or (formData ''billingOption'') (JStr ''annual'');
               billingPeriod' =
                 (if billingType = JStr ''quarterly'' \<or> billingType = JStr ''quarterlyPayroll''
                  then ''quarter'' else ''year'');
               totalPayroll = or0 (parseFloat (formData ''totalPayroll''));
               baseMonthlyPremium =
                 calculateBasePremium totalEmployees multiplier billingType totalPayroll;
               ridersMonthly =
                 calculateRidersCost totalEmployees (checked (formData ''inHospitalRider''))
                   (js_or (formData ''addBenefit'') JNull);
               optionalMonthly' =
                 calculateOptionalBenefitsCost totalEmployees
                   (checked (formData ''termLife15k'')) (checked (formData ''eap''))
                   (checked (formData ''nurseHelpline''));
               totalMonthly0 = baseMonthlyPremium + ridersMonthly + optionalMonthly';
               totalMonthly1 = legacy_applyMinimums totalMonthly0 billingType;
               totalMonthly2 = addBillingFees totalMonthly1 billingType;
               displayAmount' =
                 (if billingPeriod' = ''year'' then totalMonthly2 * 12 else totalMonthly2 * 3);
               periodMultiplier' = (if billingPeriod' = ''year'' then 12 else 3)
           in \<lparr>legacy_baseMonthlyPremium = baseMonthlyPremium,
               legacy_ridersMonthly = ridersMonthly,
               legacy_optionalMonthly = optionalMonthly',
               legacy_totalMonthly = totalMonthly2,
               legacy_displayAmount = displayAmount',
               legacy_billingPeriod = billingPeriod',
               legacy_breakdown =
                 \<lparr>legacy_basePremium = baseMonthlyPremium * periodMultiplier',
                  legacy_ridersCost = ridersMonthly * periodMultiplier',
                  legacy_optionalCost = optionalMonthly' * periodMultiplier',
                  legacy_totalCost = displayAmount'\<rparr>\<rparr>))"

section \<open>What the assembler does on each path\<close>

text \<open>Names for the values \<open>calculateQuote\<close> computes from the form before it rates.\<close>

abbreviation maleCountOf :: "formData \<Rightarrow> int" where
  "maleCountOf fd \<equiv> or0 (parseInt (fd ''maleEmployees''))"

abbreviation femaleCountOf :: "formData \<Rightarrow> int" where
  "femaleCountOf fd \<equiv> or0 (parseInt (fd ''femaleEmployees''))"

abbreviation totalEmployeesOf :: "formData \<Rightarrow> int" where
  "totalEmployeesOf fd \<equiv> maleCountOf fd + femaleCountOf fd"

abbreviation benefitTierOf :: "formData \<Rightarrow> jsval" where
  "benefitTierOf fd \<equiv> js_or (fd ''dblBenefits'') (JStr ''statutory'')"

abbreviation billingTypeOf :: "formData \<Rightarrow> jsval" where
  "billingTypeOf fd \<equiv> js_or (fd ''billingOption'') (JStr ''annual'')"

abbreviation employeesOverOf :: "formData \<Rightarrow> int" where
  "employeesOverOf fd \<equiv> or0 (parseInt (fd ''employeesOverNYSAWW''))"

abbreviation payrollBelowOf :: "formData \<Rightarrow> real" where
  "payrollBelowOf fd \<equiv> or0 (parseFloat (fd ''payrollBelowNYSAWW''))"

abbreviation rawDBLOf :: "formData \<Rightarrow> error + real" where
  "rawDBLOf fd \<equiv>
     calculateDBLPremium (maleCountOf fd) (femaleCountOf fd) (benefitTierOf fd)
       (billingTypeOf fd) (checked (fd ''inHospitalRider''))"

abbreviation periodOf :: "QuoteResult \<Rightarrow> real" where
  "periodOf q \<equiv> (if billingPeriod q = ''year'' then 12 else 3)"

lemmas parse_simps =
  parseIntString_def parseFloatString_def isWhiteSpace_def dropSign_def signOf_def
  digitValue_def digitsValue_def isDecimalDigit_def exponentPart_def scale10_def or0_def

lemma calculateQuote_zero:
  "totalEmployeesOf fd = 0 \<Longrightarrow> calculateQuote fd = Inr zeroQuote"
  by (simp add: calculateQuote_def Let_def)

lemma calculateQuote_throws:
  assumes "totalEmployeesOf fd \<noteq> 0" and "rawDBLOf fd = Inl e"
  shows "calculateQuote fd = Inl e"
  using assms by (simp add: calculateQuote_def Let_def)

lemma calculateQuote_lines:
  assumes "totalEmployeesOf fd \<noteq> 0" and "rawDBLOf fd = Inr d"
  shows "\<exists>q. calculateQuote fd = Inr q
     \<and> dblMonthly q = applyMinimums d (billingTypeOf fd)
     \<and> pflMonthly q =
         monthlyTotal (calculatePFLPremium (employeesOverOf fd) (payrollBelowOf fd)
           (totalEmployeesOf fd))
     \<and> optionalMonthly q = calculateOptionalBenefits (totalEmployeesOf fd) (optionalSelections fd)
     \<and> totalMonthly q = dblMonthly q + pflMonthly q + optionalMonthly q
     \<and> billingPeriod q = (if billingTypeOf fd = JStr ''quarterly'' then ''quarter'' else ''year'')
     \<and> periodMultiplier q = Some (periodOf q)
     \<and> displayAmount q = totalMonthly q * periodOf q
     \<and> breakdown q =
         \<lparr>dblPremium = dblMonthly q * periodOf q,
          pflPremium = pflMonthly q * periodOf q,
          optionalCost = optionalMonthly q * periodOf q,
          totalCost = displayAmount q\<rparr>
     \<and> perEmployeeBreakdown q = Some
         \<lparr>dblPerEmployee = dblMonthly q / real_of_int (totalEmployeesOf fd),
          pflPerEmployee = pflMonthly q / real_of_int (totalEmployeesOf fd),
          optionalPerEmployee = optionalMonthly q / real_of_int (totalEmployeesOf fd),
          totalPerEmployee = totalMonthly q / real_of_int (totalEmployeesOf fd)\<rparr>
     \<and> employeeInfo q = Some
         \<lparr>info_male = maleCountOf fd, info_female = femaleCountOf fd,
          info_total = totalEmployeesOf fd\<rparr>
     \<and> isEstimated q = None \<and> estimatedGenderRatio q = None"
  using assms by (simp add: calculateQuote_def Let_def)

section \<open>The PFL line\<close>

text \<open>
  C5. The annual PFL premium is the number of employees over the wage threshold times
  the annual cap per employee plus the payroll below the threshold times the
  percentage rate. The monthly figure is a twelfth of it. The figure per employee is
  the annual premium divided by the employee count when there are employees, and 0
  (from the guard of the source, not from a division) when the count is 0. Ten
  employees below the threshold with a payroll of 500000 pay 2160.00 a year; one
  employee over the threshold and no payroll below pays the cap, 411.91.
\<close>

theorem pfl_premium_formula:
  "annualTotal (calculatePFLPremium over payroll n)
     = real_of_int over * PFL_RATE_annualCapPerEmployee + payroll * PFL_RATE_percentOfPayroll
   \<and> monthlyTotal (calculatePFLPremium over payroll n)
     = annualTotal (calculatePFLPremium over payroll n) / 12
   \<and> (0 < n \<longrightarrow> annualPerEmployee (calculatePFLPremium over payroll n)
         = annualTotal (calculatePFLPremium over payroll n) / real_of_int n)
   \<and> (n = 0 \<longrightarrow> annualPerEmployee (calculatePFLPremium over payroll n) = 0
         \<and> monthlyPerEmployee (calculatePFLPremium over payroll n) = 0)
   \<and> PFL_RATE_annualCapPerEmployee = 411.91 \<and> PFL_RATE_percentOfPayroll = 0.00432
   \<and> annualTotal (calculatePFLPremium 0 500000 10) = 2160.00
   \<and> annualTotal (calculatePFLPremium 1 0 1) = 411.91"
  by (simp add: calculatePFLPremium_def Let_def PFL_RATE_annualCapPerEmployee_def
      PFL_RATE_percentOfPayroll_def)

theorem pfl_premium_formula_witness:
  "annualTotal (calculatePFLPremium 2 100000 4) = 1255.82
   \<and> monthlyTotal (calculatePFLPremium 2 100000 4) = 1255.82 / 12
   \<and> annualPerEmployee (calculatePFLPremium 2 100000 4) = 1255.82 / 4
   \<and> annualPerEmployee (calculatePFLPremium 2 100000 0) = 0"
  using pfl_premium_formula [of 2 100000 4] pfl_premium_formula [of 2 100000 0]
  by simp

section \<open>The DBL line\<close>

lemmas quote_simps =
  calculateQuote_def calculateDBLPremium_def calculatePFLPremium_def
  calculateOptionalBenefits_def optionalSelections_def applyMinimums_def checked_def
  js_or_def emptyObject_def DBL_RATES_def objectPrototypeKeys_def zeroQuote_def Let_def
  MINIMUMS_annualDBL_def MINIMUMS_quarterlyDBL_def
  PFL_RATE_annualCapPerEmployee_def PFL_RATE_percentOfPayroll_def
  OPTIONAL_BENEFITS_termLife15k_def OPTIONAL_BENEFITS_eap_def
  OPTIONAL_BENEFITS_nurseHelpline_def OPTIONAL_BENEFITS_addd50k_def
  OPTIONAL_BENEFITS_addd100k_def

lemma DBL_RATES_keys:
  "map_of DBL_RATES k = Some t \<Longrightarrow>
     k \<in> {''statutory'', ''enriched1.5x'', ''enriched2x'', ''enriched3x'', ''enriched4x'', ''enriched5x''}"
  by (simp add: DBL_RATES_def split: if_splits)

lemma DBL_RATES_hospital:
  assumes "map_of DBL_RATES k = Some t"
  shows "male (annual t) < maleWithHospital (annual t)
       \<and> female (annual t) < femaleWithHospital (annual t)
       \<and> male (quarterly t) < maleWithHospital (quarterly t)
       \<and> female (quarterly t) < femaleWithHospital (quarterly t)"
  using assms by (auto simp add: DBL_RATES_def split: if_splits)

lemma DBL_RATES_nonneg:
  assumes "map_of DBL_RATES k = Some t"
  shows "0 \<le> male (annual t) \<and> 0 \<le> female (annual t)
       \<and> 0 \<le> maleWithHospital (annual t) \<and> 0 \<le> femaleWithHospital (annual t)
       \<and> 0 \<le> male (quarterly t) \<and> 0 \<le> female (quarterly t)
       \<and> 0 \<le> maleWithHospital (quarterly t) \<and> 0 \<le> femaleWithHospital (quarterly t)"
  using assms by (auto simp add: DBL_RATES_def split: if_splits)

text \<open>The three ways the tier lookup of \<open>calculateDBLPremium\<close> can end.\<close>

lemma calculateDBLPremium_own:
  assumes "map_of DBL_RATES k = Some t"
  shows "calculateDBLPremium m f (JStr k) bt h =
     Inr (if h
          then real_of_int m * maleWithHospital ((if bt = JStr ''quarterly'' then quarterly else annual) t)
             + real_of_int f * femaleWithHospital ((if bt = JStr ''quarterly'' then quarterly else annual) t)
          else real_of_int m * male ((if bt = JStr ''quarterly'' then quarterly else annual) t)
             + real_of_int f * female ((if bt = JStr ''quarterly'' then quarterly else annual) t))"
proof -
  have "k \<noteq> []" using DBL_RATES_keys [OF assms] by auto
  then show ?thesis using assms
    by (simp add: calculateDBLPremium_def js_or_def Let_def)
qed

lemma calculateDBLPremium_undefined:
  assumes "truthy v" and "getProperty DBL_RATES v = Undefined"
  shows "calculateDBLPremium m f v bt h = Inr 0"
  using assms by (simp add: calculateDBLPremium_def js_or_def Let_def)

lemma calculateDBLPremium_inherited:
  assumes "truthy v" and "getProperty DBL_RATES v = Inherited"
  shows "calculateDBLPremium m f v bt h = Inl TypeError"
  using assms by (simp add: calculateDBLPremium_def js_or_def Let_def)

lemma calculateDBLPremium_falsy:
  assumes "\<not> truthy v"
  shows "calculateDBLPremium m f v bt h = calculateDBLPremium m f (JStr ''statutory'') bt h"
  using assms by (simp add: calculateDBLPremium_def js_or_def Let_def)

text \<open>
  A tier name that \<open>Object.prototype\<close> defines passes the guard of
  \<open>calculateDBLPremium\<close>, and the quote ends in a TypeError.
\<close>

lemma inherited_tier_throws:
  "calculateQuote (emptyObject(''maleEmployees'' := JStr ''1'',
                               ''dblBenefits'' := JStr ''constructor'')) = Inl TypeError"
  by (simp add: quote_simps parse_simps)

text \<open>
  C1, as the claim states it, fails: the rate-card calculator does not rate an
  unrecognized tier as statutory. For 100 male employees on annual billing the tier
  \<open>platinum\<close> gives a DBL premium of 0 where \<open>statutory\<close> gives 150 a month, and
  the quote shows the floor 125/12 instead of 150.
\<close>

theorem unrecognized_tier_counterexample:
  "calculateDBLPremium 100 0 (JStr ''platinum'') (JStr ''annual'') False = Inr 0
   \<and> calculateDBLPremium 100 0 (JStr ''statutory'') (JStr ''annual'') False = Inr 150
   \<and> map_sum id dblMonthly
       (calculateQuote (emptyObject(''maleEmployees'' := JStr ''100'',
                                    ''dblBenefits'' := JStr ''platinum''))) = Inr (125 / 12)
   \<and> map_sum id dblMonthly
       (calculateQuote (emptyObject(''maleEmployees'' := JStr ''100'',
                                    ''dblBenefits'' := JStr ''statutory''))) = Inr 150"
  by (simp add: quote_simps parse_simps)

text \<open>
  C1, amended. A tier string that is not empty, is not one of the six codes of the
  rate table and is not a name inherited from \<open>Object.prototype\<close> is rated at a DBL
  premium of 0, without a throw. A tier that is missing or empty (any falsy value) is
  rated as \<open>statutory\<close>. The flat-rate calculator's \<open>getDBLMultiplier\<close> does fall
  back: every value other than the six codes gets the statutory multiplier.
\<close>

theorem unrecognized_tier_rated_zero:
  "(map_of DBL_RATES k = None \<longrightarrow> k \<notin> set objectPrototypeKeys \<longrightarrow> k \<noteq> [] \<longrightarrow>
      calculateDBLPremium m f (JStr k) bt h = Inr 0)
   \<and> (\<not> truthy v \<longrightarrow>
      calculateDBLPremium m f v bt h = calculateDBLPremium m f (JStr ''statutory'') bt h)
   \<and> (v \<notin> JStr ` {''statutory'', ''enriched1.5x'', ''enriched2x'', ''enriched3x'',
                    ''enriched4x'', ''enriched5x''} \<longrightarrow>
      getDBLMultiplier v = getDBLMultiplier (JStr ''statutory''))"
proof (intro conjI impI)
  assume "map_of DBL_RATES k = None" "k \<notin> set objectPrototypeKeys" "k \<noteq> []"
  then show "calculateDBLPremium m f (JStr k) bt h = Inr 0"
    by (intro calculateDBLPremium_undefined) simp_all
next
  assume "\<not> truthy v"
  then show "calculateDBLPremium m f v bt h = calculateDBLPremium m f (JStr ''statutory'') bt h"
    by (rule calculateDBLPremium_falsy)
next
  assume "v \<notin> JStr ` {''statutory'', ''enriched1.5x'', ''enriched2x'', ''enriched3x'',
                    ''enriched4x'', ''enriched5x''}"
  then show "getDBLMultiplier v = getDBLMultiplier (JStr ''statutory'')"
    by (simp add: getDBLMultiplier_def)
qed

theorem unrecognized_tier_rated_zero_witness:
  "calculateDBLPremium 100 0 (JStr ''platinum'') (JStr ''annual'') False = Inr 0
   \<and> calculateDBLPremium 100 0 JUndefined (JStr ''annual'') False = Inr 150
   \<and> getDBLMultiplier (JStr ''platinum'') = 1"
proof -
  have a: "map_of DBL_RATES ''platinum'' = None" by (simp add: DBL_RATES_def)
  have b: "''platinum'' \<notin> set objectPrototypeKeys" by (simp add: objectPrototypeKeys_def)
  have c: "calculateDBLPremium 100 0 (JStr ''statutory'') (JStr ''annual'') False = Inr 150"
    by (simp add: quote_simps)
  have d: "getDBLMultiplier (JStr ''statutory'') = 1"
    by (simp add: getDBLMultiplier_def PRICING_statutoryMultiplier_def)
  show ?thesis
    using unrecognized_tier_rated_zero [of "''platinum''" 100 0 "JStr ''annual''" False JUndefined]
      unrecognized_tier_rated_zero [of "''platinum''" 100 0 "JStr ''annual''" False "JStr ''platinum''"]
      a b c d
    by simp
qed

text \<open>
  C9, as the claim states it, fails: with no employee of either gender the DBL premium
  is 0 with the hospital rider and 0 without it, so the rider does not strictly
  increase it.
\<close>

theorem hospital_rider_counterexample:
  "calculateDBLPremium 0 0 (JStr ''statutory'') (JStr ''annual'') True = Inr 0
   \<and> calculateDBLPremium 0 0 (JStr ''statutory'') (JStr ''annual'') False = Inr 0"
  by (simp add: calculateDBLPremium_def js_or_def Let_def DBL_RATES_def)

lemma weighted_strict:
  fixes a b a' b' :: real
  assumes "0 \<le> m" "0 \<le> f" "0 < m + f" "a < a'" "b < b'"
  shows "real_of_int m * a + real_of_int f * b < real_of_int m * a' + real_of_int f * b'"
proof (cases "0 < m")
  case True
  then have "real_of_int m * a < real_of_int m * a'" using assms(4) by simp
  moreover have "real_of_int f * b \<le> real_of_int f * b'"
    using assms(2,5) by (simp add: mult_left_mono)
  ultimately show ?thesis by linarith
next
  case False
  then have m0: "m = 0" and "0 < f" using assms(1,3) by auto
  then have "real_of_int f * b < real_of_int f * b'" using assms(5) by simp
  then show ?thesis using m0 by simp
qed

text \<open>
  C9, amended. For every tier of the rate table, every billing frequency and
  employee counts that are not negative and not both 0, the DBL monthly premium with
  the hospital rider is strictly greater than without it; every with-hospital rate of
  that tier exceeds its base rate.
\<close>

theorem hospital_rider_increases:
  assumes "map_of DBL_RATES tier = Some t" and "0 \<le> m" and "0 \<le> f" and "0 < m + f"
  shows "\<exists>base withRider.
           calculateDBLPremium m f (JStr tier) billing False = Inr base
         \<and> calculateDBLPremium m f (JStr tier) billing True = Inr withRider
         \<and> base < withRider
         \<and> male (annual t) < maleWithHospital (annual t)
         \<and> female (annual t) < femaleWithHospital (annual t)
         \<and> male (quarterly t) < maleWithHospital (quarterly t)
         \<and> female (quarterly t) < femaleWithHospital (quarterly t)"
proof -
  note h = DBL_RATES_hospital [OF assms(1)]
  have "real_of_int m * male ((if billing = JStr ''quarterly'' then quarterly else annual) t)
        + real_of_int f * female ((if billing = JStr ''quarterly'' then quarterly else annual) t)
      < real_of_int m * maleWithHospital ((if billing = JStr ''quarterly'' then quarterly else annual) t)
        + real_of_int f * femaleWithHospital ((if billing = JStr ''quarterly'' then quarterly else annual) t)"
    using h by (intro weighted_strict assms) auto
  then show ?thesis
    using h by (simp add: calculateDBLPremium_own [OF assms(1)])
qed

theorem hospital_rider_increases_witness:
  "calculateDBLPremium 2 3 (JStr ''enriched2x'') (JStr ''quarterly'') False = Inr 26.40
   \<and> calculateDBLPremium 2 3 (JStr ''enriched2x'') (JStr ''quarterly'') True = Inr 28.20"
proof -
  have t: "map_of DBL_RATES ''enriched2x'' = Some
      \<lparr>annual = \<lparr>male = 2.55, female = 5.60, maleWithHospital = 2.75, femaleWithHospital = 6.00\<rparr>,
       quarterly = \<lparr>male = 3.15, female = 6.70, maleWithHospital = 3.30, femaleWithHospital = 7.20\<rparr>\<rparr>"
    by (simp add: DBL_RATES_def)
  from hospital_rider_increases [OF t, of 2 3 "JStr ''quarterly''"]
  obtain b w where "calculateDBLPremium 2 3 (JStr ''enriched2x'') (JStr ''quarterly'') False = Inr b"
    and "calculateDBLPremium 2 3 (JStr ''enriched2x'') (JStr ''quarterly'') True = Inr w" and "b < w"
    by auto
  then show ?thesis
    by (simp add: calculateDBLPremium_own [OF t])
qed

section \<open>The minimum floor\<close>

text \<open>
  C6. With the statutory tier, annual billing, one male employee, no female employee
  and no hospital rider, the raw DBL premium is 1.50 a month, 18 a year, below the
  annual minimum of 125; the quote is produced and the DBL line of its breakdown is
  exactly 125.00.
\<close>

theorem minimum_floor_one_male:
  assumes "maleCountOf fd = 1" and "femaleCountOf fd = 0"
    and "fd ''dblBenefits'' = JStr ''statutory''" and "fd ''billingOption'' = JStr ''annual''"
    and "\<not> checked (fd ''inHospitalRider'')"
  shows "rawDBLOf fd = Inr 1.50
     \<and> (1.50::real) * 12 = 18 \<and> (18::real) < MINIMUMS_annualDBL
     \<and> (\<exists>q. calculateQuote fd = Inr q \<and> dblPremium (breakdown q) = 125.00
            \<and> dblMonthly q = 125 / 12)"
proof -
  have raw: "rawDBLOf fd = Inr 1.50"
    using assms by (simp add: calculateDBLPremium_def js_or_def DBL_RATES_def Let_def)
  have tot: "totalEmployeesOf fd \<noteq> 0" using assms by simp
  from calculateQuote_lines [OF tot raw] obtain q where q: "calculateQuote fd = Inr q"
    "dblMonthly q = applyMinimums 1.50 (billingTypeOf fd)"
    "billingPeriod q = (if billingTypeOf fd = JStr ''quarterly'' then ''quarter'' else ''year'')"
    "breakdown q =
         \<lparr>dblPremium = dblMonthly q * periodOf q,
          pflPremium = pflMonthly q * periodOf q,
          optionalCost = optionalMonthly q * periodOf q,
          totalCost = displayAmount q\<rparr>"
    by blast
  have bt: "billingTypeOf fd = JStr ''annual''" using assms by (simp add: js_or_def)
  have "dblMonthly q = 125 / 12"
    using q(2) bt by (simp add: applyMinimums_def MINIMUMS_annualDBL_def)
  moreover have "billingPeriod q = ''year''" using q(3) bt by simp
  ultimately have "dblPremium (breakdown q) = 125.00 \<and> dblMonthly q = 125 / 12"
    using q(4) by simp
  then show ?thesis using raw q(1) by (simp add: MINIMUMS_annualDBL_def)
qed

theorem minimum_floor_one_male_witness:
  "map_sum id (\<lambda>q. dblPremium (breakdown q))
     (calculateQuote (emptyObject(''maleEmployees'' := JStr ''1'', ''femaleEmployees'' := JStr ''0'',
        ''dblBenefits'' := JStr ''statutory'', ''billingOption'' := JStr ''annual''))) = Inr 125"
proof -
  let ?fd = "emptyObject(''maleEmployees'' := JStr ''1'', ''femaleEmployees'' := JStr ''0'',
        ''dblBenefits'' := JStr ''statutory'', ''billingOption'' := JStr ''annual'')"
  have "maleCountOf ?fd = 1" "femaleCountOf ?fd = 0" "?fd ''dblBenefits'' = JStr ''statutory''"
    "?fd ''billingOption'' = JStr ''annual''" "\<not> checked (?fd ''inHospitalRider'')"
    by (simp_all add: parse_simps emptyObject_def checked_def)
  from minimum_floor_one_male [OF this]
  obtain q where "calculateQuote ?fd = Inr q" and "dblPremium (breakdown q) = 125.00"
    by blast
  then show ?thesis by simp
qed

section \<open>The zero quote\<close>


text \<open>
  C4, as the claim states it, fails: with no employees and quarterly billing the
  billing period of the quote is \<open>year\<close>, not \<open>quarter\<close>. With one employee the same
  billing selection gives \<open>quarter\<close>.
\<close>

theorem zero_quote_counterexample:
  "map_sum id billingPeriod
     (calculateQuote (emptyObject(''maleEmployees'' := JStr ''0'', ''femaleEmployees'' := JStr ''0'',
        ''billingOption'' := JStr ''quarterly''))) = Inr ''year''
   \<and> map_sum id billingPeriod
     (calculateQuote (emptyObject(''maleEmployees'' := JStr ''1'', ''femaleEmployees'' := JStr ''0'',
        ''billingOption'' := JStr ''quarterly''))) = Inr ''quarter''"
  by (simp add: quote_simps parse_simps)

text \<open>
  C4, amended. When the parsed employee counts add up to 0, \<open>calculateQuote\<close> returns
  the zero quote: every monetary field is 0, the quote has no period multiplier, no
  per-employee breakdown and no employee information, and its billing period is
  \<open>year\<close> whatever the billing selection is. The flat-rate calculator does the same
  when its employee count is 0.
\<close>

theorem zero_employees_zero_quote:
  "(totalEmployeesOf fd = 0 \<longrightarrow>
      (\<exists>q. calculateQuote fd = Inr q
         \<and> dblMonthly q = 0 \<and> pflMonthly q = 0 \<and> optionalMonthly q = 0 \<and> totalMonthly q = 0
         \<and> displayAmount q = 0
         \<and> breakdown q = \<lparr>dblPremium = 0, pflPremium = 0, optionalCost = 0, totalCost = 0\<rparr>
         \<and> periodMultiplier q = None \<and> perEmployeeBreakdown q = None \<and> employeeInfo q = None
         \<and> billingPeriod q = ''year''))
   \<and> (or0 (parseInt (fd ''totalEmployees'')) = 0 \<longrightarrow>
        legacy_baseMonthlyPremium (legacy_calculateQuote fd) = 0
      \<and> legacy_ridersMonthly (legacy_calculateQuote fd) = 0
      \<and> legacy_optionalMonthly (legacy_calculateQuote fd) = 0
      \<and> legacy_totalMonthly (legacy_calculateQuote fd) = 0
      \<and> legacy_displayAmount (legacy_calculateQuote fd) = 0
      \<and> legacy_breakdown (legacy_calculateQuote fd) =
           \<lparr>legacy_basePremium = 0, legacy_ridersCost = 0, legacy_optionalCost = 0,
            legacy_totalCost = 0\<rparr>
      \<and> legacy_billingPeriod (legacy_calculateQuote fd) = ''year'')"
proof (intro conjI impI)
  assume z: "totalEmployeesOf fd = 0"
  from calculateQuote_zero [OF z]
  show "\<exists>q. calculateQuote fd = Inr q
         \<and> dblMonthly q = 0 \<and> pflMonthly q = 0 \<and> optionalMonthly q = 0 \<and> totalMonthly q = 0
         \<and> displayAmount q = 0
         \<and> breakdown q = \<lparr>dblPremium = 0, pflPremium = 0, optionalCost = 0, totalCost = 0\<rparr>
         \<and> periodMultiplier q = None \<and> perEmployeeBreakdown q = None \<and> employeeInfo q = None
         \<and> billingPeriod q = ''year''"
    by (simp add: zeroQuote_def)
next
  assume z: "or0 (parseInt (fd ''totalEmployees'')) = 0"
  then have l: "legacy_calculateQuote fd = legacy_zeroQuote"
    by (simp add: legacy_calculateQuote_def Let_def)
  show "legacy_baseMonthlyPremium (legacy_calculateQuote fd) = 0"
    and "legacy_ridersMonthly (legacy_calculateQuote fd) = 0"
    and "legacy_optionalMonthly (legacy_calculateQuote fd) = 0"
    and "legacy_totalMonthly (legacy_calculateQuote fd) = 0"
    and "legacy_displayAmount (legacy_calculateQuote fd) = 0"
    and "legacy_breakdown (legacy_calculateQuote fd) =
           \<lparr>legacy_basePremium = 0, legacy_ridersCost = 0, legacy_optionalCost = 0,
            legacy_totalCost = 0\<rparr>"
    and "legacy_billingPeriod (legacy_calculateQuote fd) = ''year''"
    by (simp_all add: l legacy_zeroQuote_def)
qed

theorem zero_employees_zero_quote_witness:
  "map_sum id (\<lambda>q. (totalMonthly q, displayAmount q, billingPeriod q))
     (calculateQuote (emptyObject(''maleEmployees'' := JStr ''-2'', ''femaleEmployees'' := JStr ''2'',
        ''billingOption'' := JStr ''quarterly'', ''employeesOverNYSAWW'' := JStr ''3'')))
   = Inr (0, 0, ''year'')
   \<and> legacy_billingPeriod
       (legacy_calculateQuote (emptyObject(''maleEmployees'' := JStr ''-2'',
          ''femaleEmployees'' := JStr ''2'', ''billingOption'' := JStr ''quarterly'',
          ''employeesOverNYSAWW'' := JStr ''3''))) = ''year''"
proof -
  let ?fd = "emptyObject(''maleEmployees'' := JStr ''-2'', ''femaleEmployees'' := JStr ''2'',
        ''billingOption'' := JStr ''quarterly'', ''employeesOverNYSAWW'' := JStr ''3'')"
  have z: "totalEmployeesOf ?fd = 0" by (simp add: parse_simps)
  have z': "or0 (parseInt (?fd ''totalEmployees'')) = 0" by (simp add: parse_simps emptyObject_def)
  from zero_employees_zero_quote [of ?fd] z
  obtain q where "calculateQuote ?fd = Inr q" and "totalMonthly q = 0" and "displayAmount q = 0"
    and "billingPeriod q = ''year''" by blast
  moreover from zero_employees_zero_quote [of ?fd] z'
  have "legacy_billingPeriod (legacy_calculateQuote ?fd) = ''year''" by blast
  ultimately show ?thesis by simp
qed

section \<open>Which lines the floor and the fee touch\<close>

text \<open>
  C2, as the claim states it, fails on the zero quote: a form with no employees and
  two employees over the wage threshold gets a DBL line of 0 and a PFL line of 0,
  while the minimum-adjusted DBL premium of no employees on annual billing is 125/12
  and the PFL calculator returns 823.82/12 a month.
\<close>

theorem floor_on_dbl_only_counterexample:
  "map_sum id (\<lambda>q. (dblMonthly q, pflMonthly q))
     (calculateQuote (emptyObject(''employeesOverNYSAWW'' := JStr ''2''))) = Inr (0, 0)
   \<and> map_sum id (\<lambda>d. applyMinimums d (JStr ''annual''))
       (calculateDBLPremium 0 0 (JStr ''statutory'') (JStr ''annual'') False) = Inr (125 / 12)
   \<and> monthlyTotal (calculatePFLPremium 2 0 0) = 823.82 / 12"
  by (simp add: quote_simps parse_simps)

text \<open>
  C2, amended. For every input whose parsed employee counts do not add up to 0 and
  whose DBL premium is computed (\<open>calculateDBLPremium\<close> returns \<open>d\<close>), the quote is
  produced, its DBL line is \<open>applyMinimums d\<close>, and its PFL and optional lines are
  the outputs of the PFL and optional-benefits calculators, with no minimum applied.
\<close>

theorem floor_on_dbl_only:
  assumes "totalEmployeesOf fd \<noteq> 0" and "rawDBLOf fd = Inr d"
  shows "\<exists>q. calculateQuote fd = Inr q
     \<and> dblMonthly q = applyMinimums d (billingTypeOf fd)
     \<and> pflMonthly q =
         monthlyTotal (calculatePFLPremium (employeesOverOf fd) (payrollBelowOf fd)
           (totalEmployeesOf fd))
     \<and> optionalMonthly q = calculateOptionalBenefits (totalEmployeesOf fd) (optionalSelections fd)"
  using calculateQuote_lines [OF assms] by blast

theorem floor_on_dbl_only_witness:
  "map_sum id (\<lambda>q. (dblMonthly q, pflMonthly q, optionalMonthly q))
     (calculateQuote (emptyObject(''maleEmployees'' := JStr ''1'', ''payrollBelowNYSAWW'' := JStr ''1000'',
        ''eap'' := JStr ''on''))) = Inr (125 / 12, 0.36, 3)"
proof -
  let ?fd = "emptyObject(''maleEmployees'' := JStr ''1'', ''payrollBelowNYSAWW'' := JStr ''1000'',
        ''eap'' := JStr ''on'')"
  have t: "totalEmployeesOf ?fd \<noteq> 0" by (simp add: parse_simps emptyObject_def)
  have r: "rawDBLOf ?fd = Inr 1.50" by (simp add: quote_simps parse_simps)
  from floor_on_dbl_only [OF t r]
  obtain q where "calculateQuote ?fd = Inr q"
     "dblMonthly q = applyMinimums 1.50 (billingTypeOf ?fd)"
     "pflMonthly q =
         monthlyTotal (calculatePFLPremium (employeesOverOf ?fd) (payrollBelowOf ?fd)
           (totalEmployeesOf ?fd))"
     "optionalMonthly q = calculateOptionalBenefits (totalEmployeesOf ?fd) (optionalSelections ?fd)"
    by blast
  then show ?thesis by (simp add: quote_simps parse_simps)
qed





section \<open>Negative counts\<close>


text \<open>
  C7, as the claim states it, fails: a negative count is used as parsed. With
  \<open>maleEmployees = -3\<close>, one female employee and the EAP benefit selected, the
  optional line is -6 a month and the quote reports -3 male and -2 total employees;
  with the count clamped to 0 the optional line would be 3.
\<close>

theorem negative_count_counterexample:
  "map_sum id (\<lambda>q. (optionalMonthly q, employeeInfo q))
     (calculateQuote (emptyObject(''maleEmployees'' := JStr ''-3'', ''femaleEmployees'' := JStr ''1'',
        ''eap'' := JStr ''on'')))
     = Inr (- 6, Some \<lparr>info_male = - 3, info_female = 1, info_total = - 2\<rparr>)
   \<and> map_sum id (\<lambda>q. (optionalMonthly q, employeeInfo q))
     (calculateQuote (emptyObject(''maleEmployees'' := JStr ''0'', ''femaleEmployees'' := JStr ''1'',
        ''eap'' := JStr ''on'')))
     = Inr (3, Some \<lparr>info_male = 0, info_female = 1, info_total = 1\<rparr>)"
  by (simp add: quote_simps parse_simps)

lemma getProperty_Own:
  "getProperty obj v = Own t \<Longrightarrow> \<exists>k. v = JStr k \<and> map_of obj k = Some t"
  by (cases v) (auto split: option.splits if_splits)

lemma calculateDBLPremium_returns:
  assumes "getProperty DBL_RATES (js_or v (JStr ''statutory'')) \<noteq> Inherited"
  shows "\<exists>d. calculateDBLPremium m f v bt h = Inr d"
  using assms
  by (cases "getProperty DBL_RATES (js_or v (JStr ''statutory''))")
     (auto simp add: calculateDBLPremium_def Let_def)

lemma calculateDBLPremium_nonneg:
  assumes "0 \<le> m" and "0 \<le> f" and "calculateDBLPremium m f v bt h = Inr d"
  shows "0 \<le> d"
proof (cases "getProperty DBL_RATES (js_or v (JStr ''statutory''))")
  case (Own t)
  from getProperty_Own [OF Own] obtain k where "map_of DBL_RATES k = Some t" by blast
  note n = DBL_RATES_nonneg [OF this]
  have "d = (if h
          then real_of_int m * maleWithHospital ((if bt = JStr ''quarterly'' then quarterly else annual) t)
             + real_of_int f * femaleWithHospital ((if bt = JStr ''quarterly'' then quarterly else annual) t)
          else real_of_int m * male ((if bt = JStr ''quarterly'' then quarterly else annual) t)
             + real_of_int f * female ((if bt = JStr ''quarterly'' then quarterly else annual) t))"
    using assms(3) Own by (simp add: calculateDBLPremium_def Let_def split: if_splits)
  then show ?thesis using n assms(1,2) by (auto intro!: add_nonneg_nonneg mult_nonneg_nonneg)
next
  case Inherited
  then show ?thesis using assms(3) by (simp add: calculateDBLPremium_def Let_def)
next
  case Undefined
  then show ?thesis using assms(3) by (simp add: calculateDBLPremium_def Let_def)
qed

lemma applyMinimums_nonneg: "0 \<le> d \<Longrightarrow> 0 \<le> applyMinimums d bt"
  by (simp add: applyMinimums_def MINIMUMS_annualDBL_def MINIMUMS_quarterlyDBL_def)

lemma calculatePFLPremium_nonneg:
  "0 \<le> over \<Longrightarrow> 0 \<le> payroll \<Longrightarrow> 0 \<le> monthlyTotal (calculatePFLPremium over payroll n)"
  by (simp add: calculatePFLPremium_def Let_def PFL_RATE_annualCapPerEmployee_def
      PFL_RATE_percentOfPayroll_def)

lemma calculateOptionalBenefits_nonneg:
  "0 \<le> n \<Longrightarrow> 0 \<le> calculateOptionalBenefits n sel"
  by (simp add: calculateOptionalBenefits_def Let_def OPTIONAL_BENEFITS_termLife15k_def
      OPTIONAL_BENEFITS_eap_def OPTIONAL_BENEFITS_nurseHelpline_def
      OPTIONAL_BENEFITS_addd50k_def OPTIONAL_BENEFITS_addd100k_def)

lemma calculateQuote_returns:
  assumes "getProperty DBL_RATES (benefitTierOf fd) \<noteq> Inherited"
  shows "\<exists>q. calculateQuote fd = Inr q"
proof (cases "totalEmployeesOf fd = 0")
  case True
  from calculateQuote_zero [OF True] show ?thesis by blast
next
  case False
  have idem: "js_or (benefitTierOf fd) (JStr ''statutory'') = benefitTierOf fd"
    by (simp add: js_or_def)
  have "getProperty DBL_RATES (js_or (benefitTierOf fd) (JStr ''statutory'')) \<noteq> Inherited"
    by (subst idem) (rule assms)
  from calculateDBLPremium_returns [OF this] obtain d where d: "rawDBLOf fd = Inr d"
    by blast
  from calculateQuote_lines [OF False d] show ?thesis by blast
qed

lemma calculateQuote_nonneg:
  assumes "0 \<le> maleCountOf fd" and "0 \<le> femaleCountOf fd"
    and "0 \<le> employeesOverOf fd" and "0 \<le> payrollBelowOf fd"
    and "calculateQuote fd = Inr q"
  shows "0 \<le> dblMonthly q \<and> 0 \<le> pflMonthly q \<and> 0 \<le> optionalMonthly q \<and> 0 \<le> totalMonthly q
     \<and> 0 \<le> displayAmount q
     \<and> 0 \<le> dblPremium (breakdown q) \<and> 0 \<le> pflPremium (breakdown q)
     \<and> 0 \<le> optionalCost (breakdown q) \<and> 0 \<le> totalCost (breakdown q)
     \<and> (\<forall>p. perEmployeeBreakdown q = Some p \<longrightarrow>
            0 \<le> dblPerEmployee p \<and> 0 \<le> pflPerEmployee p
          \<and> 0 \<le> optionalPerEmployee p \<and> 0 \<le> totalPerEmployee p)"
proof (cases "totalEmployeesOf fd = 0")
  case True
  then have "q = zeroQuote" using assms(5) calculateQuote_zero [OF True] by simp
  then show ?thesis by (simp add: zeroQuote_def)
next
  case False
  then have pos: "0 < totalEmployeesOf fd" using assms(1,2) by linarith
  obtain d where d: "rawDBLOf fd = Inr d"
  proof (cases "rawDBLOf fd")
    case (Inl e)
    then show ?thesis using assms(5) calculateQuote_throws [OF False Inl] by simp
  next
    case (Inr d)
    then show ?thesis using that by blast
  qed
  have d0: "0 \<le> d" using calculateDBLPremium_nonneg [OF assms(1,2) d] .
  from calculateQuote_lines [OF False d] assms(5) have q:
     "dblMonthly q = applyMinimums d (billingTypeOf fd)"
     "pflMonthly q =
         monthlyTotal (calculatePFLPremium (employeesOverOf fd) (payrollBelowOf fd)
           (totalEmployeesOf fd))"
     "optionalMonthly q = calculateOptionalBenefits (totalEmployeesOf fd) (optionalSelections fd)"
     "totalMonthly q = dblMonthly q + pflMonthly q + optionalMonthly q"
     "displayAmount q = totalMonthly q * periodOf q"
     "breakdown q =
         \<lparr>dblPremium = dblMonthly q * periodOf q,
          pflPremium = pflMonthly q * periodOf q,
          optionalCost = optionalMonthly q * periodOf q,
          totalCost = displayAmount q\<rparr>"
     "perEmployeeBreakdown q = Some
         \<lparr>dblPerEmployee = dblMonthly q / real_of_int (totalEmployeesOf fd),
          pflPerEmployee = pflMonthly q / real_of_int (totalEmployeesOf fd),
          optionalPerEmployee = optionalMonthly q / real_of_int (totalEmployeesOf fd),
          totalPerEmployee = totalMonthly q / real_of_int (totalEmployeesOf fd)\<rparr>"
    by auto
  have a: "0 \<le> dblMonthly q" using q(1) d0 by (simp add: applyMinimums_nonneg)
  have b: "0 \<le> pflMonthly q" using q(2) assms(3,4) by (simp add: calculatePFLPremium_nonneg)
  have c: "0 \<le> optionalMonthly q" using q(3) pos by (simp add: calculateOptionalBenefits_nonneg)
  have t: "0 \<le> totalMonthly q" using q(4) a b c by simp
  show ?thesis
    unfolding q(5) q(6) q(7)
    using a b c t pos by (auto simp add: divide_nonneg_pos)
qed

lemma calculateQuote_counts:
  assumes "calculateQuote fd = Inr q" and "totalEmployeesOf fd \<noteq> 0"
  shows "employeeInfo q = Some
           \<lparr>info_male = maleCountOf fd, info_female = femaleCountOf fd,
            info_total = totalEmployeesOf fd\<rparr>
       \<and> map_sum id (\<lambda>d. applyMinimums d (billingTypeOf fd)) (rawDBLOf fd) = Inr (dblMonthly q)
       \<and> optionalMonthly q = calculateOptionalBenefits (totalEmployeesOf fd) (optionalSelections fd)"
proof (cases "rawDBLOf fd")
  case (Inl e)
  then show ?thesis using assms(1) calculateQuote_throws [OF assms(2) Inl] by simp
next
  case (Inr d)
  from calculateQuote_lines [OF assms(2) Inr] assms(1) Inr show ?thesis by auto
qed

text \<open>
  C7, amended. The engine does not clamp. Whenever \<open>calculateQuote\<close> returns a quote
  for counts that do not add up to 0, the quote is computed from the two counts as
  \<open>parseInt\<close> returns them, negative or not: it reports them as the employee
  information, its DBL line is the minimum-adjusted \<open>calculateDBLPremium\<close> of them,
  and its optional line is \<open>calculateOptionalBenefits\<close> of their sum. When the parsed
  male and female counts, the count of employees over the wage threshold and the
  payroll below the threshold are all non-negative, no field of a returned quote holds
  a negative currency value. A quote is returned whenever the tier is not a name
  inherited from \<open>Object.prototype\<close>.
\<close>

theorem counts_used_as_parsed:
  "(\<forall>q. calculateQuote fd = Inr q \<longrightarrow> totalEmployeesOf fd \<noteq> 0 \<longrightarrow>
        employeeInfo q = Some
           \<lparr>info_male = maleCountOf fd, info_female = femaleCountOf fd,
            info_total = totalEmployeesOf fd\<rparr>
      \<and> map_sum id (\<lambda>d. applyMinimums d (billingTypeOf fd)) (rawDBLOf fd) = Inr (dblMonthly q)
      \<and> optionalMonthly q = calculateOptionalBenefits (totalEmployeesOf fd) (optionalSelections fd))
   \<and> (0 \<le> maleCountOf fd \<longrightarrow> 0 \<le> femaleCountOf fd \<longrightarrow>
      0 \<le> employeesOverOf fd \<longrightarrow> 0 \<le> payrollBelowOf fd \<longrightarrow>
      (\<forall>q. calculateQuote fd = Inr q \<longrightarrow>
          0 \<le> dblMonthly q \<and> 0 \<le> pflMonthly q \<and> 0 \<le> optionalMonthly q \<and> 0 \<le> totalMonthly q
        \<and> 0 \<le> displayAmount q
        \<and> 0 \<le> dblPremium (breakdown q) \<and> 0 \<le> pflPremium (breakdown q)
        \<and> 0 \<le> optionalCost (breakdown q) \<and> 0 \<le> totalCost (breakdown q)
        \<and> (\<forall>p. perEmployeeBreakdown q = Some p \<longrightarrow>
               0 \<le> dblPerEmployee p \<and> 0 \<le> pflPerEmployee p
             \<and> 0 \<le> optionalPerEmployee p \<and> 0 \<le> totalPerEmployee p)))
   \<and> (getProperty DBL_RATES (benefitTierOf fd) \<noteq> Inherited \<longrightarrow>
        (\<exists>q. calculateQuote fd = Inr q))"
proof -
  have counts: "employeeInfo q = Some
           \<lparr>info_male = maleCountOf fd, info_female = femaleCountOf fd,
            info_total = totalEmployeesOf fd\<rparr>
      \<and> map_sum id (\<lambda>d. applyMinimums d (billingTypeOf fd)) (rawDBLOf fd) = Inr (dblMonthly q)
      \<and> optionalMonthly q = calculateOptionalBenefits (totalEmployeesOf fd) (optionalSelections fd)"
    if "calculateQuote fd = Inr q" and "totalEmployeesOf fd \<noteq> 0" for q
    using calculateQuote_counts [OF that] .
  have nonneg: "0 \<le> dblMonthly q \<and> 0 \<le> pflMonthly q \<and> 0 \<le> optionalMonthly q \<and> 0 \<le> totalMonthly q
        \<and> 0 \<le> displayAmount q
        \<and> 0 \<le> dblPremium (breakdown q) \<and> 0 \<le> pflPremium (breakdown q)
        \<and> 0 \<le> optionalCost (breakdown q) \<and> 0 \<le> totalCost (breakdown q)
        \<and> (\<forall>p. perEmployeeBreakdown q = Some p \<longrightarrow>
               0 \<le> dblPerEmployee p \<and> 0 \<le> pflPerEmployee p
             \<and> 0 \<le> optionalPerEmployee p \<and> 0 \<le> totalPerEmployee p)"
    if "0 \<le> maleCountOf fd" "0 \<le> femaleCountOf fd" "0 \<le> employeesOverOf fd"
      "0 \<le> payrollBelowOf fd" "calculateQuote fd = Inr q" for q
    using calculateQuote_nonneg [OF that] .
  have returns: "\<exists>q. calculateQuote fd = Inr q"
    if "getProperty DBL_RATES (benefitTierOf fd) \<noteq> Inherited"
    using that by (rule calculateQuote_returns)
  show ?thesis
  proof (intro conjI)
    show "\<forall>q. calculateQuote fd = Inr q \<longrightarrow> totalEmployeesOf fd \<noteq> 0 \<longrightarrow>
        employeeInfo q = Some
           \<lparr>info_male = maleCountOf fd, info_female = femaleCountOf fd,
            info_total = totalEmployeesOf fd\<rparr>
      \<and> map_sum id (\<lambda>d. applyMinimums d (billingTypeOf fd)) (rawDBLOf fd) = Inr (dblMonthly q)
      \<and> optionalMonthly q = calculateOptionalBenefits (totalEmployeesOf fd) (optionalSelections fd)"
      using counts by blast
    show "0 \<le> maleCountOf fd \<longrightarrow> 0 \<le> femaleCountOf fd \<longrightarrow>
      0 \<le> employeesOverOf fd \<longrightarrow> 0 \<le> payrollBelowOf fd \<longrightarrow>
      (\<forall>q. calculateQuote fd = Inr q \<longrightarrow>
          0 \<le> dblMonthly q \<and> 0 \<le> pflMonthly q \<and> 0 \<le> optionalMonthly q \<and> 0 \<le> totalMonthly q
        \<and> 0 \<le> displayAmount q
        \<and> 0 \<le> dblPremium (breakdown q) \<and> 0 \<le> pflPremium (breakdown q)
        \<and> 0 \<le> optionalCost (breakdown q) \<and> 0 \<le> totalCost (breakdown q)
        \<and> (\<forall>p. perEmployeeBreakdown q = Some p \<longrightarrow>
               0 \<le> dblPerEmployee p \<and> 0 \<le> pflPerEmployee p
             \<and> 0 \<le> optionalPerEmployee p \<and> 0 \<le> totalPerEmployee p))"
      using nonneg by blast
    show "getProperty DBL_RATES (benefitTierOf fd) \<noteq> Inherited \<longrightarrow>
        (\<exists>q. calculateQuote fd = Inr q)"
      using returns by blast
  qed
qed

theorem counts_used_as_parsed_witness:
  "map_sum id (\<lambda>q. (employeeInfo q, dblMonthly q, optionalMonthly q))
     (calculateQuote (emptyObject(''maleEmployees'' := JStr ''-3'', ''femaleEmployees'' := JStr ''1'',
        ''eap'' := JStr ''on'')))
     = Inr (Some \<lparr>info_male = - 3, info_female = 1, info_total = - 2\<rparr>, 125 / 12, - 6)
   \<and> map_sum id (\<lambda>q. 0 \<le> dblMonthly q \<and> 0 \<le> optionalMonthly q \<and> 0 \<le> totalMonthly q)
     (calculateQuote (emptyObject(''maleEmployees'' := JStr ''3'', ''femaleEmployees'' := JStr ''1'',
        ''eap'' := JStr ''on''))) = Inr True"
proof -
  let ?n = "emptyObject(''maleEmployees'' := JStr ''-3'', ''femaleEmployees'' := JStr ''1'',
        ''eap'' := JStr ''on'')"
  let ?p = "emptyObject(''maleEmployees'' := JStr ''3'', ''femaleEmployees'' := JStr ''1'',
        ''eap'' := JStr ''on'')"
  have okn: "getProperty DBL_RATES (benefitTierOf ?n) \<noteq> Inherited"
    and okp: "getProperty DBL_RATES (benefitTierOf ?p) \<noteq> Inherited"
    by (simp_all add: emptyObject_def js_or_def DBL_RATES_def)
  have tn: "totalEmployeesOf ?n \<noteq> 0" by (simp add: parse_simps)
  have vn: "maleCountOf ?n = - 3" "femaleCountOf ?n = 1"
    "map_sum id (\<lambda>d. applyMinimums d (billingTypeOf ?n)) (rawDBLOf ?n) = Inr (125 / 12)"
    "calculateOptionalBenefits (totalEmployeesOf ?n) (optionalSelections ?n) = - 6"
    by (simp_all add: quote_simps parse_simps)
  have hp: "0 \<le> maleCountOf ?p" "0 \<le> femaleCountOf ?p" "0 \<le> employeesOverOf ?p"
    "0 \<le> payrollBelowOf ?p"
    by (simp_all add: parse_simps emptyObject_def)
  from counts_used_as_parsed [of ?n] okn obtain qn where qn: "calculateQuote ?n = Inr qn"
    by blast
  from counts_used_as_parsed [of ?n] qn tn
  have "employeeInfo qn = Some
           \<lparr>info_male = maleCountOf ?n, info_female = femaleCountOf ?n,
            info_total = totalEmployeesOf ?n\<rparr>
      \<and> map_sum id (\<lambda>d. applyMinimums d (billingTypeOf ?n)) (rawDBLOf ?n) = Inr (dblMonthly qn)
      \<and> optionalMonthly qn = calculateOptionalBenefits (totalEmployeesOf ?n) (optionalSelections ?n)"
    by blast
  with vn have n: "employeeInfo qn = Some \<lparr>info_male = - 3, info_female = 1, info_total = - 2\<rparr>"
    "dblMonthly qn = 125 / 12" "optionalMonthly qn = - 6"
    by simp_all
  from counts_used_as_parsed [of ?p] okp obtain qp where qp: "calculateQuote ?p = Inr qp"
    by blast
  from counts_used_as_parsed [of ?p] hp qp
  have "0 \<le> dblMonthly qp \<and> 0 \<le> optionalMonthly qp \<and> 0 \<le> totalMonthly qp"
    by blast
  with qn qp n show ?thesis by simp
qed

section \<open>The PFL line and the DBL options\<close>

lemma calculateQuote_pfl:
  assumes "calculateQuote fd = Inr q"
  shows "pflMonthly q =
     (if totalEmployeesOf fd = 0 then 0
      else monthlyTotal (calculatePFLPremium (employeesOverOf fd) (payrollBelowOf fd)
             (totalEmployeesOf fd)))"
proof (cases "totalEmployeesOf fd = 0")
  case True
  then have "q = zeroQuote" using assms calculateQuote_zero [OF True] by simp
  then show ?thesis using True by (simp add: zeroQuote_def)
next
  case False
  show ?thesis
  proof (cases "rawDBLOf fd")
    case (Inl e)
    then show ?thesis using assms calculateQuote_throws [OF False Inl] by simp
  next
    case (Inr d)
    from calculateQuote_lines [OF False Inr] assms False show ?thesis by auto
  qed
qed

text \<open>
  The PFL line of every quote that is returned depends on the parsed counts, the
  count of employees over the wage threshold and the payroll below it, and on nothing
  else.
\<close>

lemma pfl_line_of_returned_quotes:
  assumes "maleCountOf fd1 = maleCountOf fd2" and "femaleCountOf fd1 = femaleCountOf fd2"
    and "employeesOverOf fd1 = employeesOverOf fd2" and "payrollBelowOf fd1 = payrollBelowOf fd2"
    and "calculateQuote fd1 = Inr q1" and "calculateQuote fd2 = Inr q2"
  shows "pflMonthly q1 = pflMonthly q2"
  using calculateQuote_pfl [OF assms(5)] calculateQuote_pfl [OF assms(6)] assms(1-4) by simp

text \<open>
  C10. The PFL line should not depend on the DBL options: two forms that agree on
  the employee counts, the count of employees over the wage threshold and the payroll
  below it should get the same \<open>pflMonthly\<close>. The code breaks this where the guard
  of \<open>calculateDBLPremium\<close> misses a case: one male employee with one employee over
  the threshold gets a PFL line of 411.91/12, and the same form with the tier
  \<open>constructor\<close> gets no quote at all, since the call ends in a TypeError.
\<close>

theorem pfl_line_lost_on_inherited_tier:
  "map_sum id pflMonthly
     (calculateQuote (emptyObject(''maleEmployees'' := JStr ''1'',
        ''employeesOverNYSAWW'' := JStr ''1''))) = Inr (411.91 / 12)
   \<and> calculateQuote (emptyObject(''maleEmployees'' := JStr ''1'',
        ''employeesOverNYSAWW'' := JStr ''1'', ''dblBenefits'' := JStr ''constructor''))
     = Inl TypeError"
  by (simp add: quote_simps parse_simps)

section \<open>The estimated gender split\<close>




end
